theory Spec2Isabelle
  imports Main "HOL-Library.Word"
begin

section \<open>Bytes, addresses and the key-value store\<close>

type_synonym byte = "8 word"
type_synonym bytes = "byte list"
type_synonym uint64 = "64 word"

text \<open>\<^verbatim>\<open>sdk.AccAddress\<close> is a byte slice. A nil slice is \<open>None\<close> wherever the source
  compares an address with nil.\<close>

type_synonym AccAddress = bytes

text \<open>The three key families of the account store: the global counter key, the
  primary key of an address and the index key of an account number.\<close>

datatype StoreKey =
    GlobalAccountNumberKey
  | AddressStoreKey AccAddress
  | AccountNumberStoreKey uint64

text \<open>\<^verbatim>\<open>ctx.KVStore(ak.key)\<close>: point reads and writes; \<open>Get\<close> of an absent key is nil.\<close>

type_synonym KVStore = "StoreKey \<Rightarrow> bytes option"

section \<open>Errors, panics and outcomes\<close>

datatype error =
    ErrUnknownAddress AccAddress
  | ErrInvalidModulePermission string
  | ErrCodec string

datatype panic =
    PanicErr error
  | PanicMsg string

text \<open>A Go call either returns a value or panics.\<close>

datatype 'a exec = Returned 'a | Panicked panic

section \<open>Account records\<close>

type_synonym PubKey = bytes

record BaseAccount =
  Address :: AccAddress
  PubKey :: "PubKey option"
  AccountNumber :: uint64
  Sequence :: uint64

text \<open>A module account embeds a base account and adds a name and permissions.\<close>

record ModuleAccount = BaseAccount +
  Name :: string
  Permissions :: "string list"

text \<open>\<^verbatim>\<open>types.AccountI\<close> with its two supported variants; the type assertion
  \<^verbatim>\<open>acc.(types.ModuleAccountI)\<close> succeeds on \<open>ModuleAcc\<close> only.\<close>

datatype AccountI =
    BaseAcc BaseAccount
  | ModuleAcc ModuleAccount

fun AccountI_GetAddress :: "AccountI \<Rightarrow> AccAddress" where
  "AccountI_GetAddress (BaseAcc b) = Address b"
| "AccountI_GetAddress (ModuleAcc m) = Address m"

fun AccountI_GetPubKey :: "AccountI \<Rightarrow> PubKey option" where
  "AccountI_GetPubKey (BaseAcc b) = PubKey b"
| "AccountI_GetPubKey (ModuleAcc m) = PubKey m"

fun AccountI_GetAccountNumber :: "AccountI \<Rightarrow> uint64" where
  "AccountI_GetAccountNumber (BaseAcc b) = AccountNumber b"
| "AccountI_GetAccountNumber (ModuleAcc m) = AccountNumber m"

fun AccountI_GetSequence :: "AccountI \<Rightarrow> uint64" where
  "AccountI_GetSequence (BaseAcc b) = Sequence b"
| "AccountI_GetSequence (ModuleAcc m) = Sequence m"

fun AccountI_SetAccountNumber :: "AccountI \<Rightarrow> uint64 \<Rightarrow> AccountI" where
  "AccountI_SetAccountNumber (BaseAcc b) n = BaseAcc (b\<lparr>AccountNumber := n\<rparr>)"
| "AccountI_SetAccountNumber (ModuleAcc m) n = ModuleAcc (m\<lparr>AccountNumber := n\<rparr>)"

section \<open>The permission table\<close>

text \<open>\<^verbatim>\<open>types.PermissionsForAddress\<close>. The zero value, which a Go map lookup gives for
  an absent key, has no permissions and a nil address.\<close>

record PermissionsForAddress =
  permissions :: "string list"
  address :: "AccAddress option"

definition zeroPermissionsForAddress :: PermissionsForAddress where
  "zeroPermissionsForAddress = \<lparr>permissions = [], address = None\<rparr>"

text \<open>Modelled from the spec: \<^verbatim>\<open>types.NewPermissionsForAddress\<close> is not part of the
  sources at hand. Section 4.2: for each module name the table derives a stable address
  by a one-way function of the name and stores the permissions as an ordered sequence.
  The one-way function \<open>H\<close> is a parameter; its result is a hash, never nil.\<close>

definition NewPermissionsForAddress ::
  "(string \<Rightarrow> AccAddress) \<Rightarrow> string \<Rightarrow> string list \<Rightarrow> PermissionsForAddress" where
  "NewPermissionsForAddress H name perms = \<lparr>permissions = perms, address = Some (H name)\<rparr>"

text \<open>Modelled from the spec: \<^verbatim>\<open>PermissionsForAddress.HasPermission\<close> is not part of the
  sources at hand. Section 4.2: \<^verbatim>\<open>hasPermission(moduleName, permission)\<close> is a boolean, the
  membership of the permission in the stored sequence.\<close>

fun hasPermissionIn :: "string list \<Rightarrow> string \<Rightarrow> bool" where
  "hasPermissionIn [] permission = False"
| "hasPermissionIn (perm # rest) permission =
     (if perm = permission then True else hasPermissionIn rest permission)"

definition HasPermission :: "PermissionsForAddress \<Rightarrow> string \<Rightarrow> bool" where
  "HasPermission pa permission = hasPermissionIn (permissions pa) permission"

definition GetAddress :: "PermissionsForAddress \<Rightarrow> AccAddress option" where
  "GetAddress pa = address pa"

definition GetPermissions :: "PermissionsForAddress \<Rightarrow> string list" where
  "GetPermissions pa = permissions pa"

section \<open>The codec and the keeper\<close>

text \<open>\<^verbatim>\<open>codec.BinaryCodec\<close> is an interface handed to the keeper at construction. The
  four calls the keeper makes are the fields: \<^verbatim>\<open>Marshal\<close> and \<^verbatim>\<open>Unmarshal\<close> at
  \<^verbatim>\<open>gogotypes.UInt64Value\<close>, and \<^verbatim>\<open>MarshalInterface\<close> and \<^verbatim>\<open>UnmarshalInterface\<close> at
  \<^verbatim>\<open>types.AccountI\<close>. Each returns an error (\<open>Inl\<close>) or a result.\<close>

record Codec =
  Marshal :: "uint64 \<Rightarrow> error + bytes"
  Unmarshal :: "bytes \<Rightarrow> error + uint64"
  MarshalInterface :: "AccountI \<Rightarrow> error + bytes"
  UnmarshalInterface :: "bytes \<Rightarrow> error + AccountI"

text \<open>\<^verbatim>\<open>MustMarshal\<close> panics where \<^verbatim>\<open>Marshal\<close> returns an error.\<close>

definition MustMarshal :: "Codec \<Rightarrow> uint64 \<Rightarrow> bytes exec" where
  "MustMarshal c v = (case Marshal c v of Inl err \<Rightarrow> Panicked (PanicErr err) | Inr bz \<Rightarrow> Returned bz)"

text \<open>The fields of \<^verbatim>\<open>accountKeeper\<close> that the functions below read. The store key,
  the parameter subspace, the prototype constructor and the address codec play no part
  in them.\<close>

record accountKeeper =
  cdc :: Codec
  permAddrs :: "string \<Rightarrow> PermissionsForAddress option"

text \<open>\<^verbatim>\<open>NewAccountKeeper\<close>: one table entry for each configured module name.\<close>

definition NewAccountKeeper ::
  "(string \<Rightarrow> AccAddress) \<Rightarrow> Codec \<Rightarrow> (string \<Rightarrow> string list option) \<Rightarrow> accountKeeper" where
  "NewAccountKeeper H c maccPerms =
     \<lparr>cdc = c,
      permAddrs = (\<lambda>name. case maccPerms name of
                            None \<Rightarrow> None
                          | Some perms \<Rightarrow> Some (NewPermissionsForAddress H name perms))\<rparr>"

subsection \<open>Account number allocation\<close>

definition GetNextAccountNumber :: "accountKeeper \<Rightarrow> KVStore \<Rightarrow> uint64 exec \<times> KVStore" where
  "GetNextAccountNumber ak store =
     (case (case store GlobalAccountNumberKey of
              None \<Rightarrow> Returned 0
            | Some bz \<Rightarrow> (case Unmarshal (cdc ak) bz of
                            Inl err \<Rightarrow> Panicked (PanicErr err)
                          | Inr val \<Rightarrow> Returned val)) of
        Panicked p \<Rightarrow> (Panicked p, store)
      | Returned accNumber \<Rightarrow>
          (case MustMarshal (cdc ak) (accNumber + 1) of
             Panicked p \<Rightarrow> (Panicked p, store)
           | Returned bz \<Rightarrow> (Returned accNumber, store(GlobalAccountNumberKey \<mapsto> bz))))"

text \<open>A sequence of \<open>n\<close> allocation calls, each on the store the previous one left;
  the returned numbers in issuance order. A panic ends the sequence.\<close>

fun allocate :: "accountKeeper \<Rightarrow> nat \<Rightarrow> KVStore \<Rightarrow> uint64 list exec \<times> KVStore" where
  "allocate ak 0 store = (Returned [], store)"
| "allocate ak (Suc n) store =
     (case GetNextAccountNumber ak store of
        (Panicked p, store') \<Rightarrow> (Panicked p, store')
      | (Returned accNumber, store') \<Rightarrow>
          (case allocate ak n store' of
             (Panicked p, store'') \<Rightarrow> (Panicked p, store'')
           | (Returned rest, store'') \<Rightarrow> (Returned (accNumber # rest), store'')))"

subsection \<open>Permissions and module addresses\<close>

fun validatePermissionsLoop :: "PermissionsForAddress \<Rightarrow> string list \<Rightarrow> error option" where
  "validatePermissionsLoop permAddr [] = None"
| "validatePermissionsLoop permAddr (perm # rest) =
     (if \<not> HasPermission permAddr perm then Some (ErrInvalidModulePermission perm)
      else validatePermissionsLoop permAddr rest)"

definition ValidatePermissions :: "accountKeeper \<Rightarrow> ModuleAccount \<Rightarrow> error option" where
  "ValidatePermissions ak macc =
     (let permAddr = (case permAddrs ak (Name macc) of
                        None \<Rightarrow> zeroPermissionsForAddress
                      | Some pa \<Rightarrow> pa)
      in validatePermissionsLoop permAddr (Permissions macc))"

definition GetModuleAddress :: "accountKeeper \<Rightarrow> string \<Rightarrow> AccAddress option" where
  "GetModuleAddress ak moduleName =
     (case permAddrs ak moduleName of
        None \<Rightarrow> None
      | Some permAddr \<Rightarrow> GetAddress permAddr)"

definition GetModuleAddressAndPermissions ::
  "accountKeeper \<Rightarrow> string \<Rightarrow> AccAddress option \<times> string list" where
  "GetModuleAddressAndPermissions ak moduleName =
     (case permAddrs ak moduleName of
        None \<Rightarrow> (None, [])
      | Some permAddr \<Rightarrow> (GetAddress permAddr, GetPermissions permAddr))"

subsection \<open>Encoding and decoding accounts\<close>

definition MarshalAccount :: "accountKeeper \<Rightarrow> AccountI \<Rightarrow> error + bytes" where
  "MarshalAccount ak accountI = MarshalInterface (cdc ak) accountI"

definition UnmarshalAccount :: "accountKeeper \<Rightarrow> bytes \<Rightarrow> error + AccountI" where
  "UnmarshalAccount ak bz = UnmarshalInterface (cdc ak) bz"

definition decodeAccount :: "accountKeeper \<Rightarrow> bytes \<Rightarrow> AccountI exec" where
  "decodeAccount ak bz =
     (case UnmarshalAccount ak bz of
        Inl err \<Rightarrow> Panicked (PanicErr err)
      | Inr acc \<Rightarrow> Returned acc)"

subsection \<open>The account store's read, write and numbering\<close>

text \<open>Modelled from the spec: \<^verbatim>\<open>GetAccount\<close> is not part of the sources at hand.
  Section 4.1, \<^verbatim>\<open>get(address)\<close>: returns the decoded record or "not found"; decode errors
  are fatal. The decoding is \<open>decodeAccount\<close> of the source.\<close>

definition GetAccount :: "accountKeeper \<Rightarrow> KVStore \<Rightarrow> AccAddress \<Rightarrow> AccountI option exec" where
  "GetAccount ak store addr =
     (case store (AddressStoreKey addr) of
        None \<Rightarrow> Returned None
      | Some bz \<Rightarrow> (case decodeAccount ak bz of
                      Panicked p \<Rightarrow> Panicked p
                    | Returned acc \<Rightarrow> Returned (Some acc)))"

text \<open>Modelled from the spec: \<^verbatim>\<open>SetAccount\<close> is not part of the sources at hand.
  Section 4.1, \<^verbatim>\<open>put(record)\<close>: encodes and writes the primary entry keyed by address, and
  writes the index entry from the number to the address; section 4.3: an encoding
  failure is fatal.\<close>

definition SetAccount :: "accountKeeper \<Rightarrow> KVStore \<Rightarrow> AccountI \<Rightarrow> unit exec \<times> KVStore" where
  "SetAccount ak store acc =
     (let addr = AccountI_GetAddress acc in
      case MarshalAccount ak acc of
        Inl err \<Rightarrow> (Panicked (PanicErr err), store)
      | Inr bz \<Rightarrow>
          (Returned (),
           store(AddressStoreKey addr \<mapsto> bz,
                 AccountNumberStoreKey (AccountI_GetAccountNumber acc) \<mapsto> addr)))"

text \<open>Modelled from the spec: \<^verbatim>\<open>NewAccount\<close> is not part of the sources at hand.
  Section 4.3, \<^verbatim>\<open>newAccount(prototypeRecord)\<close>: an unsaved account with a freshly
  allocated number, keeping the caller's variant and fields and overwriting only the
  number; it does not persist the account.\<close>

definition NewAccount :: "accountKeeper \<Rightarrow> KVStore \<Rightarrow> AccountI \<Rightarrow> AccountI exec \<times> KVStore" where
  "NewAccount ak store acc =
     (case GetNextAccountNumber ak store of
        (Panicked p, store') \<Rightarrow> (Panicked p, store')
      | (Returned accNumber, store') \<Rightarrow> (Returned (AccountI_SetAccountNumber acc accNumber), store'))"

text \<open>Modelled from the spec: \<^verbatim>\<open>types.NewEmptyModuleAccount\<close> is not part of the sources
  at hand. Sections 3 and 4.3: a module account at the address derived from the module
  name, with the given permissions, no public key and number and sequence zero.\<close>

definition NewEmptyModuleAccount ::
  "(string \<Rightarrow> AccAddress) \<Rightarrow> string \<Rightarrow> string list \<Rightarrow> ModuleAccount" where
  "NewEmptyModuleAccount H name perms =
     \<lparr>Address = H name, PubKey = None, AccountNumber = 0, Sequence = 0,
      Name = name, Permissions = perms\<rparr>"

subsection \<open>Convenience reads\<close>

definition GetPubKey ::
  "accountKeeper \<Rightarrow> KVStore \<Rightarrow> AccAddress \<Rightarrow> (error + PubKey option) exec" where
  "GetPubKey ak store addr =
     (case GetAccount ak store addr of
        Panicked p \<Rightarrow> Panicked p
      | Returned None \<Rightarrow> Returned (Inl (ErrUnknownAddress addr))
      | Returned (Some acc) \<Rightarrow> Returned (Inr (AccountI_GetPubKey acc)))"

definition GetSequence ::
  "accountKeeper \<Rightarrow> KVStore \<Rightarrow> AccAddress \<Rightarrow> (error + uint64) exec" where
  "GetSequence ak store addr =
     (case GetAccount ak store addr of
        Panicked p \<Rightarrow> Panicked p
      | Returned None \<Rightarrow> Returned (Inl (ErrUnknownAddress addr))
      | Returned (Some acc) \<Rightarrow> Returned (Inr (AccountI_GetSequence acc)))"

subsection \<open>Module accounts\<close>

definition SetModuleAccount ::
  "accountKeeper \<Rightarrow> KVStore \<Rightarrow> ModuleAccount \<Rightarrow> unit exec \<times> KVStore" where
  "SetModuleAccount ak store macc = SetAccount ak store (ModuleAcc macc)"

definition GetModuleAccountAndPermissions ::
  "(string \<Rightarrow> AccAddress) \<Rightarrow> accountKeeper \<Rightarrow> KVStore \<Rightarrow> string \<Rightarrow>
     (ModuleAccount option \<times> string list) exec \<times> KVStore" where
  "GetModuleAccountAndPermissions H ak store moduleName =
     (case GetModuleAddressAndPermissions ak moduleName of
        (None, perms) \<Rightarrow> (Returned (None, []), store)
      | (Some addr, perms) \<Rightarrow>
          (case GetAccount ak store addr of
             Panicked p \<Rightarrow> (Panicked p, store)
           | Returned (Some acc) \<Rightarrow>
               (case acc of
                  ModuleAcc macc \<Rightarrow> (Returned (Some macc, perms), store)
                | BaseAcc b \<Rightarrow> (Panicked (PanicMsg ''account is not a module account''), store))
           | Returned None \<Rightarrow>
               (let macc = NewEmptyModuleAccount H moduleName perms in
                case NewAccount ak store (ModuleAcc macc) of
                  (Panicked p, store') \<Rightarrow> (Panicked p, store')
                | (Returned (BaseAcc b), store') \<Rightarrow>
                    (Panicked (PanicMsg ''interface conversion''), store')
                | (Returned (ModuleAcc maccI), store') \<Rightarrow>
                    (case SetModuleAccount ak store' maccI of
                       (Panicked p, store'') \<Rightarrow> (Panicked p, store'')
                     | (Returned u, store'') \<Rightarrow> (Returned (Some maccI, perms), store'')))))"

definition GetModuleAccount ::
  "(string \<Rightarrow> AccAddress) \<Rightarrow> accountKeeper \<Rightarrow> KVStore \<Rightarrow> string \<Rightarrow>
     ModuleAccount option exec \<times> KVStore" where
  "GetModuleAccount H ak store moduleName =
     (case GetModuleAccountAndPermissions H ak store moduleName of
        (Panicked p, store') \<Rightarrow> (Panicked p, store')
      | (Returned (acc, perms), store') \<Rightarrow> (Returned acc, store'))"

section \<open>A tagged envelope codec\<close>

text \<open>Modelled from the spec: the codec behind \<^verbatim>\<open>codec.BinaryCodec\<close> is not part of the
  sources at hand. Section 6: the counter key holds an encoded unsigned 64-bit value; the
  account wire envelope is a tagged binary encoding that identifies the concrete variant
  and carries its fields, and decoding fails with a decode error on an unrecognised tag.
  Here a number is a base-128 varint, a byte string carries its length before it, and
  the envelope's first byte is the tag: 0 for a base account, 1 for a module account.\<close>

fun putUvarint :: "nat \<Rightarrow> bytes" where
  "putUvarint n =
     (if n < 128 then [of_nat n] else of_nat (128 + n mod 128) # putUvarint (n div 128))"

declare putUvarint.simps [simp del]

fun getUvarint :: "bytes \<Rightarrow> (nat \<times> bytes) option" where
  "getUvarint [] = None"
| "getUvarint (b # bs) =
     (if unat b < 128 then Some (unat b, bs)
      else (case getUvarint bs of
              None \<Rightarrow> None
            | Some (n, rest) \<Rightarrow> Some (unat b - 128 + 128 * n, rest)))"

definition putUint64 :: "uint64 \<Rightarrow> bytes" where
  "putUint64 v = putUvarint (unat v)"

definition getUint64 :: "bytes \<Rightarrow> (uint64 \<times> bytes) option" where
  "getUint64 bz =
     (case getUvarint bz of
        None \<Rightarrow> None
      | Some (n, rest) \<Rightarrow> if n < 2 ^ 64 then Some (of_nat n, rest) else None)"

definition putBytes :: "bytes \<Rightarrow> bytes" where
  "putBytes bs = putUvarint (length bs) @ bs"

definition getBytes :: "bytes \<Rightarrow> (bytes \<times> bytes) option" where
  "getBytes bz =
     (case getUvarint bz of
        None \<Rightarrow> None
      | Some (n, rest) \<Rightarrow> if length rest < n then None else Some (take n rest, drop n rest))"

definition byte_of_char :: "char \<Rightarrow> byte" where
  "byte_of_char c = of_nat (of_char c)"

definition char_of_byte :: "byte \<Rightarrow> char" where
  "char_of_byte b = char_of (unat b)"

definition putString :: "string \<Rightarrow> bytes" where
  "putString s = putBytes (map byte_of_char s)"

definition getString :: "bytes \<Rightarrow> (string \<times> bytes) option" where
  "getString bz =
     (case getBytes bz of
        None \<Rightarrow> None
      | Some (bs, rest) \<Rightarrow> Some (map char_of_byte bs, rest))"

fun putStrings :: "string list \<Rightarrow> bytes" where
  "putStrings [] = []"
| "putStrings (s # ss) = putString s @ putStrings ss"

fun getStrings :: "nat \<Rightarrow> bytes \<Rightarrow> (string list \<times> bytes) option" where
  "getStrings 0 bz = Some ([], bz)"
| "getStrings (Suc k) bz =
     (case getString bz of
        None \<Rightarrow> None
      | Some (s, rest) \<Rightarrow>
          (case getStrings k rest of
             None \<Rightarrow> None
           | Some (ss, rest') \<Rightarrow> Some (s # ss, rest')))"

fun putPubKey :: "PubKey option \<Rightarrow> bytes" where
  "putPubKey None = [0]"
| "putPubKey (Some k) = 1 # putBytes k"

fun getPubKeyField :: "bytes \<Rightarrow> (PubKey option \<times> bytes) option" where
  "getPubKeyField [] = None"
| "getPubKeyField (b # bz) =
     (if b = 0 then Some (None, bz)
      else if b = 1 then
        (case getBytes bz of
           None \<Rightarrow> None
         | Some (k, rest) \<Rightarrow> Some (Some k, rest))
      else None)"

definition putBaseAccount :: "'a BaseAccount_scheme \<Rightarrow> bytes" where
  "putBaseAccount b =
     putBytes (Address b) @ putPubKey (PubKey b) @
     putUint64 (AccountNumber b) @ putUint64 (Sequence b)"

definition getBaseAccount :: "bytes \<Rightarrow> (BaseAccount \<times> bytes) option" where
  "getBaseAccount bz =
     (case getBytes bz of
        None \<Rightarrow> None
      | Some (addr, r1) \<Rightarrow>
          (case getPubKeyField r1 of
             None \<Rightarrow> None
           | Some (pk, r2) \<Rightarrow>
               (case getUint64 r2 of
                  None \<Rightarrow> None
                | Some (num, r3) \<Rightarrow>
                    (case getUint64 r3 of
                       None \<Rightarrow> None
                     | Some (sq, r4) \<Rightarrow>
                         Some (\<lparr>Address = addr, PubKey = pk,
                                AccountNumber = num, Sequence = sq\<rparr>, r4)))))"

fun encodeEnvelope :: "AccountI \<Rightarrow> bytes" where
  "encodeEnvelope (BaseAcc b) = 0 # putBaseAccount b"
| "encodeEnvelope (ModuleAcc m) =
     1 # putBaseAccount m @ putString (Name m) @
     putUvarint (length (Permissions m)) @ putStrings (Permissions m)"

definition getModuleAccountFields :: "bytes \<Rightarrow> (ModuleAccount \<times> bytes) option" where
  "getModuleAccountFields bz =
     (case getBaseAccount bz of
        None \<Rightarrow> None
      | Some (b, r1) \<Rightarrow>
          (case getString r1 of
             None \<Rightarrow> None
           | Some (name, r2) \<Rightarrow>
               (case getUvarint r2 of
                  None \<Rightarrow> None
                | Some (k, r3) \<Rightarrow>
                    (case getStrings k r3 of
                       None \<Rightarrow> None
                     | Some (perms, r4) \<Rightarrow>
                         Some (\<lparr>Address = Address b, PubKey = PubKey b,
                                AccountNumber = AccountNumber b, Sequence = Sequence b,
                                Name = name, Permissions = perms\<rparr>, r4)))))"

fun decodeEnvelope :: "bytes \<Rightarrow> error + AccountI" where
  "decodeEnvelope [] = Inl (ErrCodec ''decode error'')"
| "decodeEnvelope (tag # bz) =
     (if tag = 0 then
        (case getBaseAccount bz of
           Some (b, []) \<Rightarrow> Inr (BaseAcc b)
         | _ \<Rightarrow> Inl (ErrCodec ''decode error''))
      else if tag = 1 then
        (case getModuleAccountFields bz of
           Some (m, []) \<Rightarrow> Inr (ModuleAcc m)
         | _ \<Rightarrow> Inl (ErrCodec ''decode error''))
      else Inl (ErrCodec ''decode error''))"

definition decodeUint64Value :: "bytes \<Rightarrow> error + uint64" where
  "decodeUint64Value bz =
     (case getUint64 bz of
        Some (v, []) \<Rightarrow> Inr v
      | _ \<Rightarrow> Inl (ErrCodec ''decode error''))"

definition envelopeCodec :: Codec where
  "envelopeCodec =
     \<lparr>Marshal = (\<lambda>v. Inr (putUint64 v)),
      Unmarshal = decodeUint64Value,
      MarshalInterface = (\<lambda>acc. Inr (encodeEnvelope acc)),
      UnmarshalInterface = decodeEnvelope\<rparr>"

section \<open>The group module's conversions\<close>

text \<open>Go's \<^verbatim>\<open>time.Time\<close>, as far as its methods show it: the instant as seconds since
  the Unix epoch with a nanosecond offset, and the location it is displayed in.\<close>

datatype Location = UTC | Local | Zone string

record Time =
  unixSec :: int
  nsec :: int
  loc :: Location

text \<open>\<^verbatim>\<open>timestamppb.Timestamp\<close>: 64-bit signed seconds and 32-bit signed nanoseconds.\<close>

record Timestamp =
  Seconds :: "64 word"
  Nanos :: "32 word"

text \<open>The protobuf timestamp range: years 1 to 9999, nanoseconds below one second;
  and the time is a UTC one.\<close>

definition utcTimestampTime :: "Time \<Rightarrow> bool" where
  "utcTimestampTime t =
     (loc t = UTC \<and> - 62135596800 \<le> unixSec t \<and> unixSec t \<le> 253402300799 \<and>
      0 \<le> nsec t \<and> nsec t < 1000000000)"

text \<open>Go's integer division truncates towards zero.\<close>

definition quot :: "int \<Rightarrow> int \<Rightarrow> int" where
  "quot a b = sgn a * sgn b * (\<bar>a\<bar> div \<bar>b\<bar>)"

text \<open>\<^verbatim>\<open>time.Unix(sec, nsec)\<close> of Go's library: nanoseconds outside one second are
  carried into the seconds; the result is in the local location.\<close>

definition time_Unix :: "int \<Rightarrow> int \<Rightarrow> Time" where
  "time_Unix sec ns =
     (if ns < 0 \<or> ns \<ge> 1000000000 then
        (let n = quot ns 1000000000;
             sec1 = sec + n;
             ns1 = ns - n * 1000000000
         in if ns1 < 0 then \<lparr>unixSec = sec1 - 1, nsec = ns1 + 1000000000, loc = Local\<rparr>
            else \<lparr>unixSec = sec1, nsec = ns1, loc = Local\<rparr>)
      else \<lparr>unixSec = sec, nsec = ns, loc = Local\<rparr>)"

definition Time_UTC :: "Time \<Rightarrow> Time" where
  "Time_UTC t = t\<lparr>loc := UTC\<rparr>"

text \<open>\<^verbatim>\<open>timestamppb.New(t)\<close> of the protobuf library: the seconds of \<^verbatim>\<open>t.Unix()\<close> and the
  nanoseconds of \<^verbatim>\<open>t.Nanosecond()\<close> converted to 32 bits.\<close>

definition timestamppb_New :: "Time \<Rightarrow> Timestamp" where
  "timestamppb_New t = \<lparr>Seconds = of_int (unixSec t), Nanos = of_int (nsec t)\<rparr>"

text \<open>\<^verbatim>\<open>AsTime\<close> of the protobuf library:
  \<^verbatim>\<open>time.Unix(x.GetSeconds(), int64(x.GetNanos())).UTC()\<close>; the getters of a nil
  timestamp give zero.\<close>

definition AsTime :: "Timestamp option \<Rightarrow> Time" where
  "AsTime x =
     (case x of
        None \<Rightarrow> Time_UTC (time_Unix 0 0)
      | Some ts \<Rightarrow> Time_UTC (time_Unix (sint (Seconds ts)) (sint (Nanos ts))))"

record GroupInfo =
  GroupInfo_Id :: uint64
  GroupInfo_Admin :: string
  GroupInfo_Metadata :: string
  GroupInfo_Version :: uint64
  GroupInfo_TotalWeight :: string
  GroupInfo_CreatedAt :: Time

record groupv1_GroupInfo =
  groupv1_GroupInfo_Id :: uint64
  groupv1_GroupInfo_Admin :: string
  groupv1_GroupInfo_Metadata :: string
  groupv1_GroupInfo_Version :: uint64
  groupv1_GroupInfo_TotalWeight :: string
  groupv1_GroupInfo_CreatedAt :: "Timestamp option"

text \<open>Both vote option types are enumerations over 32-bit integers; the conversions
  between them keep the integer.\<close>

datatype VoteOption = VoteOption "32 word"
datatype groupv1_VoteOption = groupv1_VoteOption "32 word"

fun to_groupv1_VoteOption :: "VoteOption \<Rightarrow> groupv1_VoteOption" where
  "to_groupv1_VoteOption (VoteOption i) = groupv1_VoteOption i"

fun to_VoteOption :: "groupv1_VoteOption \<Rightarrow> VoteOption" where
  "to_VoteOption (groupv1_VoteOption i) = VoteOption i"

record Vote =
  Vote_ProposalId :: uint64
  Vote_Voter :: string
  Vote_Option :: VoteOption
  Vote_Metadata :: string
  Vote_SubmitTime :: Time

record groupv1_Vote =
  groupv1_Vote_ProposalId :: uint64
  groupv1_Vote_Voter :: string
  groupv1_Vote_Option :: groupv1_VoteOption
  groupv1_Vote_Metadata :: string
  groupv1_Vote_SubmitTime :: "Timestamp option"

definition GroupInfoFromPulsar :: "groupv1_GroupInfo \<Rightarrow> GroupInfo" where
  "GroupInfoFromPulsar groupInfo =
     \<lparr>GroupInfo_Id = groupv1_GroupInfo_Id groupInfo,
      GroupInfo_Admin = groupv1_GroupInfo_Admin groupInfo,
      GroupInfo_Metadata = groupv1_GroupInfo_Metadata groupInfo,
      GroupInfo_Version = groupv1_GroupInfo_Version groupInfo,
      GroupInfo_TotalWeight = groupv1_GroupInfo_TotalWeight groupInfo,
      GroupInfo_CreatedAt = AsTime (groupv1_GroupInfo_CreatedAt groupInfo)\<rparr>"

definition GroupInfoToPulsar :: "GroupInfo \<Rightarrow> groupv1_GroupInfo" where
  "GroupInfoToPulsar groupInfo =
     \<lparr>groupv1_GroupInfo_Id = GroupInfo_Id groupInfo,
      groupv1_GroupInfo_Admin = GroupInfo_Admin groupInfo,
      groupv1_GroupInfo_Metadata = GroupInfo_Metadata groupInfo,
      groupv1_GroupInfo_Version = GroupInfo_Version groupInfo,
      groupv1_GroupInfo_TotalWeight = GroupInfo_TotalWeight groupInfo,
      groupv1_GroupInfo_CreatedAt = Some (timestamppb_New (GroupInfo_CreatedAt groupInfo))\<rparr>"

definition VoteFromPulsar :: "groupv1_Vote \<Rightarrow> Vote" where
  "VoteFromPulsar vote =
     \<lparr>Vote_ProposalId = groupv1_Vote_ProposalId vote,
      Vote_Voter = groupv1_Vote_Voter vote,
      Vote_Option = to_VoteOption (groupv1_Vote_Option vote),
      Vote_Metadata = groupv1_Vote_Metadata vote,
      Vote_SubmitTime = AsTime (groupv1_Vote_SubmitTime vote)\<rparr>"

definition VoteToPulsar :: "Vote \<Rightarrow> groupv1_Vote" where
  "VoteToPulsar vote =
     \<lparr>groupv1_Vote_ProposalId = Vote_ProposalId vote,
      groupv1_Vote_Voter = Vote_Voter vote,
      groupv1_Vote_Option = to_groupv1_VoteOption (Vote_Option vote),
      groupv1_Vote_Metadata = Vote_Metadata vote,
      groupv1_Vote_SubmitTime = Some (timestamppb_New (Vote_SubmitTime vote))\<rparr>"

section \<open>Properties of the envelope codec\<close>

lemma unat_byte_of_nat: "k < 256 \<Longrightarrow> unat (of_nat k :: byte) = k"
  by (simp add: unat_of_nat)

lemma getUvarint_putUvarint: "getUvarint (putUvarint n @ rest) = Some (n, rest)"
proof (induction n rule: putUvarint.induct)
  case (1 n)
  show ?case
  proof (cases "n < 128")
    case True
    then have "unat (of_nat n :: byte) = n" by (simp add: unat_byte_of_nat)
    with True show ?thesis by (simp add: putUvarint.simps [of n])
  next
    case False
    have u: "unat (of_nat (128 + n mod 128) :: byte) = 128 + n mod 128"
      by (rule unat_byte_of_nat) simp
    from False 1 u show ?thesis by (simp add: putUvarint.simps [of n])
  qed
qed

lemma getUint64_putUint64: "getUint64 (putUint64 v @ rest) = Some (v, rest)"
proof -
  have "unat v < 2 ^ 64" using unsigned_less [of v] by simp
  then show ?thesis by (simp add: getUint64_def putUint64_def getUvarint_putUvarint)
qed

lemma getBytes_putBytes: "getBytes (putBytes bs @ rest) = Some (bs, rest)"
  by (simp add: getBytes_def putBytes_def getUvarint_putUvarint)

lemma char_of_byte_of_char: "char_of_byte (byte_of_char c) = c"
  by (simp add: char_of_byte_def byte_of_char_def unat_of_nat)

lemma getString_putString: "getString (putString s @ rest) = Some (s, rest)"
  by (simp add: getString_def putString_def getBytes_putBytes char_of_byte_of_char comp_def)

lemma getStrings_putStrings: "getStrings (length ss) (putStrings ss @ rest) = Some (ss, rest)"
  by (induction ss) (simp_all add: getString_putString)

lemma getPubKeyField_putPubKey: "getPubKeyField (putPubKey pk @ rest) = Some (pk, rest)"
  by (cases pk) (simp_all add: getBytes_putBytes)

lemma getBaseAccount_putBaseAccount:
  "getBaseAccount (putBaseAccount b @ rest) = Some (BaseAccount.truncate b, rest)"
  by (simp add: getBaseAccount_def putBaseAccount_def getBytes_putBytes getPubKeyField_putPubKey
      getUint64_putUint64 BaseAccount.truncate_def)

lemma getModuleAccountFields_put:
  "getModuleAccountFields (putBaseAccount m @ putString (Name m) @
     putUvarint (length (Permissions m)) @ putStrings (Permissions m) @ rest) = Some (m, rest)"
  by (simp add: getModuleAccountFields_def getBaseAccount_putBaseAccount getString_putString
      getUvarint_putUvarint getStrings_putStrings BaseAccount.truncate_def)

lemma decodeEnvelope_encodeEnvelope: "decodeEnvelope (encodeEnvelope acc) = Inr acc"
proof (cases acc)
  case (BaseAcc b)
  have "getBaseAccount (putBaseAccount b @ []) = Some (b, [])"
    by (simp only: getBaseAccount_putBaseAccount) (simp add: BaseAccount.truncate_def)
  then show ?thesis using BaseAcc by simp
next
  case (ModuleAcc m)
  have "getModuleAccountFields (putBaseAccount m @ putString (Name m) @
     putUvarint (length (Permissions m)) @ putStrings (Permissions m) @ []) = Some (m, [])"
    by (rule getModuleAccountFields_put)
  then show ?thesis using ModuleAcc by simp
qed

lemma decodeUint64Value_putUint64: "decodeUint64Value (putUint64 v) = Inr v"
  using getUint64_putUint64 [of v "[]"] by (simp add: decodeUint64Value_def)

lemma envelopeCodec_uint64_roundtrip:
  "\<forall>v. \<exists>bz. Marshal envelopeCodec v = Inr bz \<and> Unmarshal envelopeCodec bz = Inr v"
  by (simp add: envelopeCodec_def decodeUint64Value_putUint64)

lemma envelopeCodec_account_roundtrip:
  "\<forall>acc bz. MarshalInterface envelopeCodec acc = Inr bz \<longrightarrow>
     UnmarshalInterface envelopeCodec bz = Inr acc"
  by (auto simp: envelopeCodec_def decodeEnvelope_encodeEnvelope)

section \<open>Properties of the account store\<close>

lemma GetAccount_absent: "store (AddressStoreKey addr) = None \<Longrightarrow> GetAccount ak store addr = Returned None"
  by (simp add: GetAccount_def)

lemma GetAccount_decoded:
  "store (AddressStoreKey addr) = Some bz \<Longrightarrow> UnmarshalInterface (cdc ak) bz = Inr acc \<Longrightarrow>
     GetAccount ak store addr = Returned (Some acc)"
  by (simp add: GetAccount_def decodeAccount_def UnmarshalAccount_def)

lemma GetAccount_corrupt:
  "store (AddressStoreKey addr) = Some bz \<Longrightarrow> UnmarshalInterface (cdc ak) bz = Inl err \<Longrightarrow>
     GetAccount ak store addr = Panicked (PanicErr err)"
  by (simp add: GetAccount_def decodeAccount_def UnmarshalAccount_def)

lemma GetNextAccountNumber_fresh:
  "store GlobalAccountNumberKey = None \<Longrightarrow> Marshal (cdc ak) 1 = Inr bz \<Longrightarrow>
     GetNextAccountNumber ak store = (Returned 0, store(GlobalAccountNumberKey \<mapsto> bz))"
  by (simp add: GetNextAccountNumber_def MustMarshal_def)

lemma GetNextAccountNumber_stored:
  "store GlobalAccountNumberKey = Some bz0 \<Longrightarrow> Unmarshal (cdc ak) bz0 = Inr v \<Longrightarrow>
   Marshal (cdc ak) (v + 1) = Inr bz \<Longrightarrow>
     GetNextAccountNumber ak store = (Returned v, store(GlobalAccountNumberKey \<mapsto> bz))"
  by (simp add: GetNextAccountNumber_def MustMarshal_def)

lemma allocate_from:
  assumes rt: "\<forall>v. \<exists>bz. Marshal (cdc ak) v = Inr bz \<and> Unmarshal (cdc ak) bz = Inr v"
  shows "(store GlobalAccountNumberKey = None \<and> v = 0) \<or>
         (\<exists>bz. store GlobalAccountNumberKey = Some bz \<and> Unmarshal (cdc ak) bz = Inr v) \<Longrightarrow>
         \<exists>store'. allocate ak n store = (Returned (map (\<lambda>i. v + of_nat i) [0..<n]), store')"
proof (induction n arbitrary: store v)
  case 0
  then show ?case by simp
next
  case (Suc n)
  from rt obtain bz where bz: "Marshal (cdc ak) (v + 1) = Inr bz" "Unmarshal (cdc ak) bz = Inr (v + 1)"
    by blast
  have step: "GetNextAccountNumber ak store = (Returned v, store(GlobalAccountNumberKey \<mapsto> bz))"
    using Suc.prems bz(1) by (auto simp: GetNextAccountNumber_fresh GetNextAccountNumber_stored)
  have "\<exists>store'. allocate ak n (store(GlobalAccountNumberKey \<mapsto> bz)) =
          (Returned (map (\<lambda>i. (v + 1) + of_nat i) [0..<n]), store')"
    by (rule Suc.IH) (simp add: bz(2))
  then obtain store' where rec: "allocate ak n (store(GlobalAccountNumberKey \<mapsto> bz)) =
          (Returned (map (\<lambda>i. (v + 1) + of_nat i) [0..<n]), store')" by blast
  have "map (\<lambda>i. v + of_nat i) [0..<Suc n] = v # map (\<lambda>i. (v + 1) + of_nat i) [0..<n]"
    by (simp only: map_upt_Suc) (simp add: add.assoc add.commute)
  with step rec show ?case by (simp del: upt_Suc)
qed

lemma unat_upto: "N \<le> 2 ^ 64 \<Longrightarrow> map unat (map of_nat [0..<N] :: uint64 list) = [0..<N]"
proof -
  assume n: "N \<le> 2 ^ 64"
  have "map (unat \<circ> (of_nat :: nat \<Rightarrow> uint64)) [0..<N] = map (\<lambda>i. i) [0..<N]"
  proof (rule map_cong [OF refl])
    fix i assume "i \<in> set [0..<N]"
    with n have "i < 2 ^ 64" by simp
    then show "(unat \<circ> (of_nat :: nat \<Rightarrow> uint64)) i = i" by (simp add: unat_of_nat)
  qed
  then show ?thesis by simp
qed

subsection \<open>Module accounts, case by case\<close>

lemma lookup_configured:
  "maccPerms moduleName = Some perms \<Longrightarrow>
     GetModuleAddressAndPermissions (NewAccountKeeper H c maccPerms) moduleName
       = (Some (H moduleName), perms)"
  by (simp add: NewAccountKeeper_def GetModuleAddressAndPermissions_def
      NewPermissionsForAddress_def GetAddress_def GetPermissions_def)

lemma cdc_NewAccountKeeper: "cdc (NewAccountKeeper H c maccPerms) = c"
  by (simp add: NewAccountKeeper_def)

lemma existing_base:
  assumes "GetModuleAddressAndPermissions ak moduleName = (Some addr, perms)"
    and "GetAccount ak store addr = Returned (Some (BaseAcc b))"
  shows "GetModuleAccountAndPermissions H ak store moduleName
           = (Panicked (PanicMsg ''account is not a module account''), store)"
  using assms by (simp add: GetModuleAccountAndPermissions_def)

lemma existing_module:
  assumes "GetModuleAddressAndPermissions ak moduleName = (Some addr, perms)"
    and "GetAccount ak store addr = Returned (Some (ModuleAcc m))"
  shows "GetModuleAccountAndPermissions H ak store moduleName = (Returned (Some m, perms), store)"
  using assms by (simp add: GetModuleAccountAndPermissions_def)

lemma existing_corrupt:
  assumes "GetModuleAddressAndPermissions ak moduleName = (Some addr, perms)"
    and "GetAccount ak store addr = Panicked p"
  shows "GetModuleAccountAndPermissions H ak store moduleName = (Panicked p, store)"
  using assms by (simp add: GetModuleAccountAndPermissions_def)

lemma created:
  assumes "GetModuleAddressAndPermissions ak moduleName = (Some addr, perms)"
    and "GetAccount ak store addr = Returned None"
    and "GetNextAccountNumber ak store = (Returned n, store')"
    and "MarshalInterface (cdc ak) (ModuleAcc ((NewEmptyModuleAccount H moduleName perms)\<lparr>AccountNumber := n\<rparr>)) = Inr bz"
  shows "GetModuleAccountAndPermissions H ak store moduleName =
           (Returned (Some ((NewEmptyModuleAccount H moduleName perms)\<lparr>AccountNumber := n\<rparr>), perms),
            store'(AddressStoreKey (H moduleName) \<mapsto> bz, AccountNumberStoreKey n \<mapsto> H moduleName))"
  using assms
  by (simp add: GetModuleAccountAndPermissions_def NewAccount_def SetModuleAccount_def
      SetAccount_def MarshalAccount_def NewEmptyModuleAccount_def Let_def)

lemma created_panic_number:
  assumes "GetModuleAddressAndPermissions ak moduleName = (Some addr, perms)"
    and "GetAccount ak store addr = Returned None"
    and "GetNextAccountNumber ak store = (Panicked p, store')"
  shows "GetModuleAccountAndPermissions H ak store moduleName = (Panicked p, store')"
  using assms
  by (simp add: GetModuleAccountAndPermissions_def NewAccount_def)

lemma created_panic_marshal:
  assumes "GetModuleAddressAndPermissions ak moduleName = (Some addr, perms)"
    and "GetAccount ak store addr = Returned None"
    and "GetNextAccountNumber ak store = (Returned n, store')"
    and "MarshalInterface (cdc ak) (ModuleAcc ((NewEmptyModuleAccount H moduleName perms)\<lparr>AccountNumber := n\<rparr>)) = Inl err"
  shows "GetModuleAccountAndPermissions H ak store moduleName = (Panicked (PanicErr err), store')"
  using assms
  by (simp add: GetModuleAccountAndPermissions_def NewAccount_def SetModuleAccount_def
      SetAccount_def MarshalAccount_def NewEmptyModuleAccount_def Let_def)

lemma GetModuleAccount_of:
  "GetModuleAccountAndPermissions H ak store moduleName = (Returned (acc, perms), store') \<Longrightarrow>
     GetModuleAccount H ak store moduleName = (Returned acc, store')"
  "GetModuleAccountAndPermissions H ak store moduleName = (Panicked p, store') \<Longrightarrow>
     GetModuleAccount H ak store moduleName = (Panicked p, store')"
  by (simp_all add: GetModuleAccount_def)

lemma fee_collector_first_call:
  "GetModuleAccountAndPermissions (map byte_of_char)
     (NewAccountKeeper (map byte_of_char) envelopeCodec [''fee_collector'' \<mapsto> [''burner'']])
     Map.empty ''fee_collector''
   = (Returned (Some \<lparr>Address = map byte_of_char ''fee_collector'', PubKey = None,
                       AccountNumber = 0, Sequence = 0, Name = ''fee_collector'',
                       Permissions = [''burner'']\<rparr>, [''burner'']),
      [GlobalAccountNumberKey \<mapsto> putUint64 1,
       AddressStoreKey (map byte_of_char ''fee_collector'') \<mapsto>
         encodeEnvelope (ModuleAcc \<lparr>Address = map byte_of_char ''fee_collector'', PubKey = None,
                       AccountNumber = 0, Sequence = 0, Name = ''fee_collector'',
                       Permissions = [''burner'']\<rparr>),
       AccountNumberStoreKey 0 \<mapsto> map byte_of_char ''fee_collector''])"
proof -
  let ?H = "map byte_of_char"
  let ?ak = "NewAccountKeeper ?H envelopeCodec [''fee_collector'' \<mapsto> [''burner'']]"
  have lk: "GetModuleAddressAndPermissions ?ak ''fee_collector''
              = (Some (?H ''fee_collector''), [''burner''])"
    by (rule lookup_configured) simp
  have g: "GetAccount ?ak Map.empty (?H ''fee_collector'') = Returned None"
    by (rule GetAccount_absent) simp
  have nx: "GetNextAccountNumber ?ak Map.empty = (Returned 0, [GlobalAccountNumberKey \<mapsto> putUint64 1])"
    by (rule GetNextAccountNumber_fresh) (simp_all add: cdc_NewAccountKeeper envelopeCodec_def)
  have m: "MarshalInterface (cdc ?ak)
             (ModuleAcc ((NewEmptyModuleAccount ?H ''fee_collector'' [''burner''])\<lparr>AccountNumber := 0\<rparr>))
           = Inr (encodeEnvelope
               (ModuleAcc ((NewEmptyModuleAccount ?H ''fee_collector'' [''burner''])\<lparr>AccountNumber := 0\<rparr>)))"
    by (simp add: cdc_NewAccountKeeper envelopeCodec_def)
  from created [OF lk g nx m] show ?thesis
    by (simp add: NewEmptyModuleAccount_def)
qed

section \<open>Properties of the timestamp conversions\<close>

lemma sint_int64: "- (2 ^ 63) \<le> x \<Longrightarrow> x < 2 ^ 63 \<Longrightarrow> sint (word_of_int x :: 64 word) = x"
  by (simp add: signed_of_int signed_take_bit_int_eq_self)

lemma sint_int32: "- (2 ^ 31) \<le> x \<Longrightarrow> x < 2 ^ 31 \<Longrightarrow> sint (word_of_int x :: 32 word) = x"
  by (simp add: signed_of_int signed_take_bit_int_eq_self)

lemma AsTime_New:
  assumes v: "utcTimestampTime t"
  shows "AsTime (Some (timestamppb_New t)) = t"
proof -
  from v have s: "sint (word_of_int (unixSec t) :: 64 word) = unixSec t"
    by (intro sint_int64) (simp_all add: utcTimestampTime_def)
  from v have n: "sint (word_of_int (nsec t) :: 32 word) = nsec t"
    by (intro sint_int32) (simp_all add: utcTimestampTime_def)
  from v s n show ?thesis
    by (simp add: AsTime_def timestamppb_New_def time_Unix_def Time_UTC_def utcTimestampTime_def)
qed

lemma to_VoteOption_inverse: "to_VoteOption (to_groupv1_VoteOption x) = x"
  by (cases x) simp

section \<open>Properties of the permission checks\<close>

lemma hasPermissionIn_set: "hasPermissionIn ps p = (p \<in> set ps)"
  by (induction ps) auto

lemma validatePermissionsLoop_None:
  "(validatePermissionsLoop pa ps = None) = (\<forall>p \<in> set ps. p \<in> set (permissions pa))"
  by (induction ps) (auto simp: HasPermission_def hasPermissionIn_set)

lemma validatePermissionsLoop_Some:
  "validatePermissionsLoop pa ps = Some e \<Longrightarrow>
     \<exists>p \<in> set ps. e = ErrInvalidModulePermission p \<and> p \<notin> set (permissions pa)"
  by (induction ps) (auto simp: HasPermission_def hasPermissionIn_set split: if_splits)

section \<open>The claims\<close>

text \<open>C3: for a keeper built by \<open>NewAccountKeeper\<close> from a configuration, validating a
  module account succeeds (returns no error) exactly when every permission in the
  account's list is declared for the account's module name in the configuration; and
  when some permission of the account is not declared, the result is an
  invalid-permission error naming a permission of the account.\<close>

theorem ValidatePermissions_iff_declared:
  fixes H c maccPerms macc
  defines "ak \<equiv> NewAccountKeeper H c maccPerms"
  shows "(ValidatePermissions ak macc = None) =
           (\<forall>perm \<in> set (Permissions macc).
              \<exists>perms. maccPerms (Name macc) = Some perms \<and> perm \<in> set perms)
         \<and> ((\<exists>perm \<in> set (Permissions macc).
                \<not> (\<exists>perms. maccPerms (Name macc) = Some perms \<and> perm \<in> set perms))
             \<longrightarrow> (\<exists>perm \<in> set (Permissions macc).
                    ValidatePermissions ak macc = Some (ErrInvalidModulePermission perm)))"
proof -
  let ?pa = "case permAddrs ak (Name macc) of None \<Rightarrow> zeroPermissionsForAddress | Some pa \<Rightarrow> pa"
  have decl: "p \<in> set (permissions ?pa) = (\<exists>perms. maccPerms (Name macc) = Some perms \<and> p \<in> set perms)" for p
    by (cases "maccPerms (Name macc)")
       (simp_all add: ak_def NewAccountKeeper_def zeroPermissionsForAddress_def NewPermissionsForAddress_def)
  have v: "ValidatePermissions ak macc = validatePermissionsLoop ?pa (Permissions macc)"
    by (simp add: ValidatePermissions_def)
  have a: "(ValidatePermissions ak macc = None) =
           (\<forall>perm \<in> set (Permissions macc).
              \<exists>perms. maccPerms (Name macc) = Some perms \<and> perm \<in> set perms)"
    unfolding v validatePermissionsLoop_None using decl by simp
  have b: "\<exists>perm \<in> set (Permissions macc).
                    ValidatePermissions ak macc = Some (ErrInvalidModulePermission perm)"
    if "\<exists>perm \<in> set (Permissions macc).
                \<not> (\<exists>perms. maccPerms (Name macc) = Some perms \<and> perm \<in> set perms)"
  proof -
    from that a have "ValidatePermissions ak macc \<noteq> None" by blast
    then obtain e where e: "ValidatePermissions ak macc = Some e" by auto
    from validatePermissionsLoop_Some [OF e [unfolded v]] e show ?thesis by auto
  qed
  from a b show ?thesis by blast
qed

theorem ValidatePermissions_iff_declared_witness:
  "ValidatePermissions
     (NewAccountKeeper (map byte_of_char) envelopeCodec [''fee_collector'' \<mapsto> [''burner'']])
     \<lparr>Address = [], PubKey = None, AccountNumber = 0, Sequence = 0,
      Name = ''fee_collector'', Permissions = [''burner'']\<rparr> = None
   \<and> (\<exists>perm \<in> set [''minter''].
        ValidatePermissions
          (NewAccountKeeper (map byte_of_char) envelopeCodec [''fee_collector'' \<mapsto> [''burner'']])
          \<lparr>Address = [], PubKey = None, AccountNumber = 0, Sequence = 0,
           Name = ''fee_collector'', Permissions = [''minter'']\<rparr>
        = Some (ErrInvalidModulePermission perm))"
  using ValidatePermissions_iff_declared
          [where H = "map byte_of_char" and c = envelopeCodec
             and maccPerms = "[''fee_collector'' \<mapsto> [''burner'']]"
             and macc = "\<lparr>Address = [], PubKey = None, AccountNumber = 0, Sequence = 0,
                Name = ''fee_collector'', Permissions = [''burner'']\<rparr>"]
        ValidatePermissions_iff_declared
          [where H = "map byte_of_char" and c = envelopeCodec
             and maccPerms = "[''fee_collector'' \<mapsto> [''burner'']]"
             and macc = "\<lparr>Address = [], PubKey = None, AccountNumber = 0, Sequence = 0,
                Name = ''fee_collector'', Permissions = [''minter'']\<rparr>"]
  by simp

text \<open>C8: for a keeper built by \<open>NewAccountKeeper\<close>, a configured module name looks up
  to the address derived from the name (and, with permissions, to the declared list); a
  module name that is not configured looks up to the nil address (and no permissions).\<close>

theorem module_lookup:
  fixes H c maccPerms
  defines "ak \<equiv> NewAccountKeeper H c maccPerms"
  shows "(\<forall>perms. maccPerms moduleName = Some perms \<longrightarrow>
            GetModuleAddress ak moduleName = Some (H moduleName) \<and>
            GetModuleAddressAndPermissions ak moduleName = (Some (H moduleName), perms))
         \<and> (maccPerms moduleName = None \<longrightarrow>
            GetModuleAddress ak moduleName = None \<and>
            GetModuleAddressAndPermissions ak moduleName = (None, []))"
  by (simp add: ak_def NewAccountKeeper_def GetModuleAddress_def GetModuleAddressAndPermissions_def
      NewPermissionsForAddress_def GetAddress_def GetPermissions_def)

theorem module_lookup_witness:
  "GetModuleAddress
     (NewAccountKeeper (map byte_of_char) envelopeCodec [''bank'' \<mapsto> [''minter'']]) ''bank''
     = Some (map byte_of_char ''bank'')
   \<and> GetModuleAddressAndPermissions
     (NewAccountKeeper (map byte_of_char) envelopeCodec [''bank'' \<mapsto> [''minter'']]) ''bank''
     = (Some (map byte_of_char ''bank''), [''minter''])
   \<and> GetModuleAddress
     (NewAccountKeeper (map byte_of_char) envelopeCodec [''bank'' \<mapsto> [''minter'']]) ''gov''
     = None"
  using module_lookup [where H = "map byte_of_char" and c = envelopeCodec
                         and maccPerms = "[''bank'' \<mapsto> [''minter'']]" and moduleName = "''bank''"]
        module_lookup [where H = "map byte_of_char" and c = envelopeCodec
                         and maccPerms = "[''bank'' \<mapsto> [''minter'']]" and moduleName = "''gov''"]
  by simp

text \<open>C9: for a module name that has no entry in the permission table,
  \<open>GetModuleAccountAndPermissions\<close> returns nil with an empty permission list and
  \<open>GetModuleAccount\<close> returns nil; neither panics, and the store is left as it was (no
  account written, no number allocated).\<close>

theorem unknown_module_account:
  assumes "permAddrs ak moduleName = None"
  shows "GetModuleAccountAndPermissions H ak store moduleName = (Returned (None, []), store)
         \<and> GetModuleAccount H ak store moduleName = (Returned None, store)"
  using assms
  by (simp add: GetModuleAccountAndPermissions_def GetModuleAccount_def
      GetModuleAddressAndPermissions_def)

theorem unknown_module_account_witness:
  "permAddrs (NewAccountKeeper (map byte_of_char) envelopeCodec [''bank'' \<mapsto> [''minter'']])
     ''gov'' = None
   \<and> GetModuleAccountAndPermissions (map byte_of_char)
        (NewAccountKeeper (map byte_of_char) envelopeCodec [''bank'' \<mapsto> [''minter'']])
        Map.empty ''gov'' = (Returned (None, []), Map.empty)
   \<and> GetModuleAccount (map byte_of_char)
        (NewAccountKeeper (map byte_of_char) envelopeCodec [''bank'' \<mapsto> [''minter'']])
        Map.empty ''gov'' = (Returned None, Map.empty)"
proof -
  have h: "permAddrs
             (NewAccountKeeper (map byte_of_char) envelopeCodec [''bank'' \<mapsto> [''minter'']])
             ''gov'' = None"
    by (simp add: NewAccountKeeper_def)
  show ?thesis
    using h unknown_module_account [OF h, where H = "map byte_of_char" and store = Map.empty] by simp
qed

text \<open>C5: with the envelope codec as the keeper's codec, encoding any account of either
  variant succeeds and decoding the bytes gives back the same account, field for
  field.\<close>

theorem account_roundtrip:
  "\<exists>bz. MarshalAccount (NewAccountKeeper H envelopeCodec maccPerms) acc = Inr bz \<and>
        UnmarshalAccount (NewAccountKeeper H envelopeCodec maccPerms) bz = Inr acc"
  by (simp add: MarshalAccount_def UnmarshalAccount_def NewAccountKeeper_def envelopeCodec_def
      decodeEnvelope_encodeEnvelope)

text \<open>C10: for a group info whose creation time is a UTC time in the protobuf
  timestamp range, converting to the Pulsar form and back gives the same group info; and
  likewise for a vote whose submit time is such a time.\<close>

theorem pulsar_roundtrip:
  "(utcTimestampTime (GroupInfo_CreatedAt g) \<longrightarrow> GroupInfoFromPulsar (GroupInfoToPulsar g) = g)
   \<and> (utcTimestampTime (Vote_SubmitTime v) \<longrightarrow> VoteFromPulsar (VoteToPulsar v) = v)"
  by (simp add: GroupInfoFromPulsar_def GroupInfoToPulsar_def VoteFromPulsar_def
      VoteToPulsar_def AsTime_New to_VoteOption_inverse)

theorem pulsar_roundtrip_witness:
  "utcTimestampTime \<lparr>unixSec = 1700000000, nsec = 5, loc = UTC\<rparr>
   \<and> GroupInfoFromPulsar (GroupInfoToPulsar
        \<lparr>GroupInfo_Id = 1, GroupInfo_Admin = ''a'', GroupInfo_Metadata = ''m'',
         GroupInfo_Version = 2, GroupInfo_TotalWeight = ''3'',
         GroupInfo_CreatedAt = \<lparr>unixSec = 1700000000, nsec = 5, loc = UTC\<rparr>\<rparr>)
      = \<lparr>GroupInfo_Id = 1, GroupInfo_Admin = ''a'', GroupInfo_Metadata = ''m'',
         GroupInfo_Version = 2, GroupInfo_TotalWeight = ''3'',
         GroupInfo_CreatedAt = \<lparr>unixSec = 1700000000, nsec = 5, loc = UTC\<rparr>\<rparr>
   \<and> VoteFromPulsar (VoteToPulsar
        \<lparr>Vote_ProposalId = 7, Vote_Voter = ''v'', Vote_Option = VoteOption 1,
         Vote_Metadata = ''m'',
         Vote_SubmitTime = \<lparr>unixSec = 1700000000, nsec = 5, loc = UTC\<rparr>\<rparr>)
      = \<lparr>Vote_ProposalId = 7, Vote_Voter = ''v'', Vote_Option = VoteOption 1,
         Vote_Metadata = ''m'',
         Vote_SubmitTime = \<lparr>unixSec = 1700000000, nsec = 5, loc = UTC\<rparr>\<rparr>"
proof -
  have h: "utcTimestampTime \<lparr>unixSec = 1700000000, nsec = 5, loc = UTC\<rparr>"
    by (simp add: utcTimestampTime_def)
  show ?thesis
    using h pulsar_roundtrip
      [of "\<lparr>GroupInfo_Id = 1, GroupInfo_Admin = ''a'', GroupInfo_Metadata = ''m'',
            GroupInfo_Version = 2, GroupInfo_TotalWeight = ''3'',
            GroupInfo_CreatedAt = \<lparr>unixSec = 1700000000, nsec = 5, loc = UTC\<rparr>\<rparr>"
          "\<lparr>Vote_ProposalId = 7, Vote_Voter = ''v'', Vote_Option = VoteOption 1,
            Vote_Metadata = ''m'',
            Vote_SubmitTime = \<lparr>unixSec = 1700000000, nsec = 5, loc = UTC\<rparr>\<rparr>"]
    by simp
qed

text \<open>C6: where no account is stored at an address, \<open>GetSequence\<close> and \<open>GetPubKey\<close>
  each return the unknown-address error, not a value; where the store holds bytes at the
  address that decode to an account, they return that account's sequence number and
  public key, with no error.\<close>

theorem GetSequence_GetPubKey:
  "(store (AddressStoreKey addr) = None \<longrightarrow>
      GetSequence ak store addr = Returned (Inl (ErrUnknownAddress addr)) \<and>
      GetPubKey ak store addr = Returned (Inl (ErrUnknownAddress addr)))
   \<and> (\<forall>bz acc. store (AddressStoreKey addr) = Some bz \<and> UnmarshalInterface (cdc ak) bz = Inr acc \<longrightarrow>
      GetSequence ak store addr = Returned (Inr (AccountI_GetSequence acc)) \<and>
      GetPubKey ak store addr = Returned (Inr (AccountI_GetPubKey acc)))"
  by (auto simp: GetSequence_def GetPubKey_def GetAccount_absent GetAccount_decoded)

theorem GetSequence_GetPubKey_witness:
  "GetSequence (NewAccountKeeper (map byte_of_char) envelopeCodec Map.empty) Map.empty [1]
     = Returned (Inl (ErrUnknownAddress [1]))
   \<and> GetSequence (NewAccountKeeper (map byte_of_char) envelopeCodec Map.empty)
        [AddressStoreKey [1] \<mapsto> encodeEnvelope
           (BaseAcc \<lparr>Address = [1], PubKey = Some [9], AccountNumber = 4, Sequence = 7\<rparr>)] [1]
     = Returned (Inr 7)
   \<and> GetPubKey (NewAccountKeeper (map byte_of_char) envelopeCodec Map.empty)
        [AddressStoreKey [1] \<mapsto> encodeEnvelope
           (BaseAcc \<lparr>Address = [1], PubKey = Some [9], AccountNumber = 4, Sequence = 7\<rparr>)] [1]
     = Returned (Inr (Some [9]))"
  using GetSequence_GetPubKey
          [where ak = "NewAccountKeeper (map byte_of_char) envelopeCodec Map.empty"
             and store = Map.empty and addr = "[1]"]
        GetSequence_GetPubKey
          [where ak = "NewAccountKeeper (map byte_of_char) envelopeCodec Map.empty"
             and store = "[AddressStoreKey [1] \<mapsto> encodeEnvelope
               (BaseAcc \<lparr>Address = [1], PubKey = Some [9], AccountNumber = 4, Sequence = 7\<rparr>)]"
             and addr = "[1]"]
        decodeEnvelope_encodeEnvelope
          [of "BaseAcc \<lparr>Address = [1], PubKey = Some [9], AccountNumber = 4, Sequence = 7\<rparr>"]
  by (simp add: NewAccountKeeper_def envelopeCodec_def)

text \<open>C7: when the codec fails to decode the bytes of a stored account, decoding panics
  with the codec's error, and so do the account read and the sequence and public-key reads
  at that address; when the codec fails to decode the stored counter, the allocation
  panics with the codec's error and writes nothing. No value is returned in either
  case.\<close>

theorem decode_failure_panics:
  "(UnmarshalInterface (cdc ak) bz = Inl err \<longrightarrow>
      decodeAccount ak bz = Panicked (PanicErr err) \<and>
      (store (AddressStoreKey addr) = Some bz \<longrightarrow>
         GetAccount ak store addr = Panicked (PanicErr err) \<and>
         GetSequence ak store addr = Panicked (PanicErr err) \<and>
         GetPubKey ak store addr = Panicked (PanicErr err)))
   \<and> (store GlobalAccountNumberKey = Some bz \<and> Unmarshal (cdc ak) bz = Inl err \<longrightarrow>
      GetNextAccountNumber ak store = (Panicked (PanicErr err), store))"
  by (auto simp: GetSequence_def GetPubKey_def GetAccount_corrupt decodeAccount_def
      UnmarshalAccount_def GetNextAccountNumber_def)

theorem decode_failure_panics_witness:
  "UnmarshalInterface (cdc (NewAccountKeeper (map byte_of_char) envelopeCodec Map.empty)) [2]
     = Inl (ErrCodec ''decode error'')
   \<and> GetAccount (NewAccountKeeper (map byte_of_char) envelopeCodec Map.empty)
        [AddressStoreKey [1] \<mapsto> [2]] [1] = Panicked (PanicErr (ErrCodec ''decode error''))
   \<and> GetNextAccountNumber (NewAccountKeeper (map byte_of_char) envelopeCodec Map.empty)
        [GlobalAccountNumberKey \<mapsto> [2, 2]]
     = (Panicked (PanicErr (ErrCodec ''decode error'')), [GlobalAccountNumberKey \<mapsto> [2, 2]])"
proof -
  let ?ak = "NewAccountKeeper (map byte_of_char) envelopeCodec Map.empty"
  have a: "UnmarshalInterface (cdc ?ak) [2] = Inl (ErrCodec ''decode error'')"
    by (simp add: NewAccountKeeper_def envelopeCodec_def)
  have b: "Unmarshal (cdc ?ak) [2, 2] = Inl (ErrCodec ''decode error'')"
    by (simp add: NewAccountKeeper_def envelopeCodec_def decodeUint64Value_def getUint64_def)
  show ?thesis
    using a b
      decode_failure_panics [where ak = ?ak and bz = "[2]" and err = "ErrCodec ''decode error''"
        and store = "[AddressStoreKey [1] \<mapsto> [2]]" and addr = "[1]"]
      decode_failure_panics [where ak = ?ak and bz = "[2, 2]" and err = "ErrCodec ''decode error''"
        and store = "[GlobalAccountNumberKey \<mapsto> [2, 2]]" and addr = "[1]"]
    by simp
qed

text \<open>C1: with a codec that encodes every 64-bit value and decodes the encoding back to
  it, \<open>GetNextAccountNumber\<close> on a store without a counter returns 0 and stores the
  encoding of 1; on a store whose counter decodes to \<open>v\<close> it returns \<open>v\<close> and stores the
  encoding of \<open>v + 1\<close>; and \<open>N\<close> calls in a row from a store without a counter, for \<open>N\<close> up
  to the number of 64-bit values, return exactly 0, 1, ..., \<open>N - 1\<close> in this order, with
  no repeats.\<close>

theorem GetNextAccountNumber_sequence:
  assumes rt: "\<forall>v. \<exists>bz. Marshal (cdc ak) v = Inr bz \<and> Unmarshal (cdc ak) bz = Inr v"
  shows "(store GlobalAccountNumberKey = None \<longrightarrow>
            (\<exists>bz. Marshal (cdc ak) 1 = Inr bz \<and>
               GetNextAccountNumber ak store = (Returned 0, store(GlobalAccountNumberKey \<mapsto> bz))))
         \<and> (\<forall>bz0 v. store GlobalAccountNumberKey = Some bz0 \<and> Unmarshal (cdc ak) bz0 = Inr v \<longrightarrow>
            (\<exists>bz. Marshal (cdc ak) (v + 1) = Inr bz \<and>
               GetNextAccountNumber ak store = (Returned v, store(GlobalAccountNumberKey \<mapsto> bz))))
         \<and> (store GlobalAccountNumberKey = None \<and> N \<le> 2 ^ 64 \<longrightarrow>
            (\<exists>ns store'. allocate ak N store = (Returned ns, store') \<and>
               map unat ns = [0..<N] \<and> distinct ns))"
proof (intro conjI impI allI)
  assume "store GlobalAccountNumberKey = None"
  moreover from rt obtain bz where "Marshal (cdc ak) 1 = Inr bz" by blast
  ultimately show "\<exists>bz. Marshal (cdc ak) 1 = Inr bz \<and>
     GetNextAccountNumber ak store = (Returned 0, store(GlobalAccountNumberKey \<mapsto> bz))"
    by (auto simp: GetNextAccountNumber_fresh)
next
  fix bz0 v
  assume "store GlobalAccountNumberKey = Some bz0 \<and> Unmarshal (cdc ak) bz0 = Inr v"
  moreover from rt obtain bz where "Marshal (cdc ak) (v + 1) = Inr bz" by blast
  ultimately show "\<exists>bz. Marshal (cdc ak) (v + 1) = Inr bz \<and>
     GetNextAccountNumber ak store = (Returned v, store(GlobalAccountNumberKey \<mapsto> bz))"
    by (auto simp: GetNextAccountNumber_stored)
next
  assume a: "store GlobalAccountNumberKey = None \<and> N \<le> 2 ^ 64"
  then obtain store' where al: "allocate ak N store = (Returned (map (\<lambda>i. 0 + of_nat i) [0..<N]), store')"
    using allocate_from [OF rt, of store 0 N] by blast
  let ?ns = "map of_nat [0..<N] :: uint64 list"
  from a have "N \<le> 2 ^ 64" by simp
  then have u: "map unat ?ns = [0..<N]" by (rule unat_upto)
  have "distinct (map unat ?ns)" unfolding u by simp
  then have "distinct ?ns" by (simp only: distinct_map)
  with al u show "\<exists>ns store'. allocate ak N store = (Returned ns, store') \<and>
               map unat ns = [0..<N] \<and> distinct ns" by auto
qed

theorem GetNextAccountNumber_sequence_witness:
  "(\<forall>v. \<exists>bz. Marshal (cdc (NewAccountKeeper (map byte_of_char) envelopeCodec Map.empty)) v = Inr bz \<and>
      Unmarshal (cdc (NewAccountKeeper (map byte_of_char) envelopeCodec Map.empty)) bz = Inr v)
   \<and> (\<exists>ns store'.
        allocate (NewAccountKeeper (map byte_of_char) envelopeCodec Map.empty) 3 Map.empty
          = (Returned ns, store') \<and>
        map unat ns = [0, 1, 2] \<and> distinct ns)"
proof -
  let ?ak = "NewAccountKeeper (map byte_of_char) envelopeCodec Map.empty"
  have rt: "\<forall>v. \<exists>bz. Marshal (cdc ?ak) v = Inr bz \<and> Unmarshal (cdc ?ak) bz = Inr v"
    using envelopeCodec_uint64_roundtrip by (simp add: NewAccountKeeper_def)
  have "[0..<3] = [0, 1, 2::nat]" by (simp add: upt_rec)
  then show ?thesis
    using rt GetNextAccountNumber_sequence [OF rt, where store = Map.empty and N = 3]
    by simp
qed

text \<open>C2: for a module name configured at construction: if the store holds, at the
  module's derived address, bytes that decode to a base account, \<open>GetModuleAccount\<close>
  panics with "account is not a module account" and leaves the store as it was; if they
  decode to a module account, that account is returned and the store is left as it was;
  if nothing is stored there, a module account at the derived address with exactly the
  declared permissions and the next account number is written to the store (primary and
  index entries) and returned.\<close>

theorem GetModuleAccount_configured:
  fixes H c maccPerms
  defines "ak \<equiv> NewAccountKeeper H c maccPerms"
  assumes cfg: "maccPerms moduleName = Some perms"
  shows "(\<forall>bz b. store (AddressStoreKey (H moduleName)) = Some bz \<and>
                  UnmarshalInterface c bz = Inr (BaseAcc b) \<longrightarrow>
            GetModuleAccount H ak store moduleName
              = (Panicked (PanicMsg ''account is not a module account''), store))
         \<and> (\<forall>bz m. store (AddressStoreKey (H moduleName)) = Some bz \<and>
                  UnmarshalInterface c bz = Inr (ModuleAcc m) \<longrightarrow>
            GetModuleAccount H ak store moduleName = (Returned (Some m), store) \<and>
            GetModuleAccountAndPermissions H ak store moduleName = (Returned (Some m, perms), store))
         \<and> (\<forall>n store' bz. store (AddressStoreKey (H moduleName)) = None \<and>
                  GetNextAccountNumber ak store = (Returned n, store') \<and>
                  MarshalInterface c
                    (ModuleAcc \<lparr>Address = H moduleName, PubKey = None, AccountNumber = n,
                                Sequence = 0, Name = moduleName, Permissions = perms\<rparr>) = Inr bz \<longrightarrow>
            GetModuleAccount H ak store moduleName
              = (Returned (Some \<lparr>Address = H moduleName, PubKey = None, AccountNumber = n,
                                 Sequence = 0, Name = moduleName, Permissions = perms\<rparr>),
                 store'(AddressStoreKey (H moduleName) \<mapsto> bz,
                        AccountNumberStoreKey n \<mapsto> H moduleName)) \<and>
            GetModuleAccountAndPermissions H ak store moduleName
              = (Returned (Some \<lparr>Address = H moduleName, PubKey = None, AccountNumber = n,
                                 Sequence = 0, Name = moduleName, Permissions = perms\<rparr>, perms),
                 store'(AddressStoreKey (H moduleName) \<mapsto> bz,
                        AccountNumberStoreKey n \<mapsto> H moduleName)))"
proof -
  have lk: "GetModuleAddressAndPermissions ak moduleName = (Some (H moduleName), perms)"
    unfolding ak_def using cfg by (rule lookup_configured)
  have c: "cdc ak = c" by (simp add: ak_def cdc_NewAccountKeeper)
  have new: "(NewEmptyModuleAccount H moduleName perms)\<lparr>AccountNumber := n\<rparr>
      = \<lparr>Address = H moduleName, PubKey = None, AccountNumber = n,
                                 Sequence = 0, Name = moduleName, Permissions = perms\<rparr>" for n
    by (simp add: NewEmptyModuleAccount_def)
  show ?thesis
  proof (intro conjI allI impI)
    fix bz b
    assume "store (AddressStoreKey (H moduleName)) = Some bz \<and> UnmarshalInterface c bz = Inr (BaseAcc b)"
    then have "GetAccount ak store (H moduleName) = Returned (Some (BaseAcc b))"
      by (simp add: GetAccount_decoded c)
    from existing_base [OF lk this]
    show "GetModuleAccount H ak store moduleName
              = (Panicked (PanicMsg ''account is not a module account''), store)"
      by (rule GetModuleAccount_of)
  next
    fix bz m
    assume "store (AddressStoreKey (H moduleName)) = Some bz \<and> UnmarshalInterface c bz = Inr (ModuleAcc m)"
    then have "GetAccount ak store (H moduleName) = Returned (Some (ModuleAcc m))"
      by (simp add: GetAccount_decoded c)
    from existing_module [OF lk this]
    show e: "GetModuleAccountAndPermissions H ak store moduleName = (Returned (Some m, perms), store)" .
    then show "GetModuleAccount H ak store moduleName = (Returned (Some m), store)"
      by (rule GetModuleAccount_of)
  next
    fix n store' bz
    assume a: "store (AddressStoreKey (H moduleName)) = None \<and>
                  GetNextAccountNumber ak store = (Returned n, store') \<and>
                  MarshalInterface c
                    (ModuleAcc \<lparr>Address = H moduleName, PubKey = None, AccountNumber = n,
                                Sequence = 0, Name = moduleName, Permissions = perms\<rparr>) = Inr bz"
    then have g: "GetAccount ak store (H moduleName) = Returned None"
      by (simp add: GetAccount_absent)
    from a have nx: "GetNextAccountNumber ak store = (Returned n, store')" by simp
    from a have "MarshalInterface (cdc ak) (ModuleAcc ((NewEmptyModuleAccount H moduleName perms)\<lparr>AccountNumber := n\<rparr>)) = Inr bz"
      by (simp only: c new)
    from created [OF lk g nx this]
    show e: "GetModuleAccountAndPermissions H ak store moduleName
              = (Returned (Some \<lparr>Address = H moduleName, PubKey = None, AccountNumber = n,
                                 Sequence = 0, Name = moduleName, Permissions = perms\<rparr>, perms),
                 store'(AddressStoreKey (H moduleName) \<mapsto> bz,
                        AccountNumberStoreKey n \<mapsto> H moduleName))"
      by (simp only: new)
    then show "GetModuleAccount H ak store moduleName
              = (Returned (Some \<lparr>Address = H moduleName, PubKey = None, AccountNumber = n,
                                 Sequence = 0, Name = moduleName, Permissions = perms\<rparr>),
                 store'(AddressStoreKey (H moduleName) \<mapsto> bz,
                        AccountNumberStoreKey n \<mapsto> H moduleName))"
      by (rule GetModuleAccount_of)
  qed
qed

theorem GetModuleAccount_configured_witness:
  "[''fee_collector'' \<mapsto> [''burner'']] ''fee_collector'' = Some [''burner'']
   \<and> GetModuleAccount (map byte_of_char)
     (NewAccountKeeper (map byte_of_char) envelopeCodec [''fee_collector'' \<mapsto> [''burner'']])
     Map.empty ''fee_collector''
   = (Returned (Some \<lparr>Address = map byte_of_char ''fee_collector'', PubKey = None,
                       AccountNumber = 0, Sequence = 0, Name = ''fee_collector'',
                       Permissions = [''burner'']\<rparr>),
      [GlobalAccountNumberKey \<mapsto> putUint64 1,
       AddressStoreKey (map byte_of_char ''fee_collector'') \<mapsto>
         encodeEnvelope (ModuleAcc \<lparr>Address = map byte_of_char ''fee_collector'', PubKey = None,
                       AccountNumber = 0, Sequence = 0, Name = ''fee_collector'',
                       Permissions = [''burner'']\<rparr>),
       AccountNumberStoreKey 0 \<mapsto> map byte_of_char ''fee_collector''])"
proof -
  let ?H = "map byte_of_char"
  let ?cfg = "[''fee_collector'' \<mapsto> [''burner'']]"
  let ?ak = "NewAccountKeeper ?H envelopeCodec ?cfg"
  have cfg: "?cfg ''fee_collector'' = Some [''burner'']" by simp
  have nx: "GetNextAccountNumber ?ak Map.empty = (Returned 0, [GlobalAccountNumberKey \<mapsto> putUint64 1])"
    by (rule GetNextAccountNumber_fresh) (simp_all add: cdc_NewAccountKeeper envelopeCodec_def)
  show ?thesis
    using cfg nx
      GetModuleAccount_configured
        [where maccPerms = ?cfg and moduleName = "''fee_collector''" and perms = "[''burner'']"
           and H = ?H and c = envelopeCodec and store = Map.empty, OF cfg]
    by (simp add: envelopeCodec_def)
qed

text \<open>C4: for a configured module name and a codec that decodes every encoding back to
  the account, whenever a call of \<open>GetModuleAccount\<close> returns, it returns a module
  account that is then in the store, and a second call on the resulting store returns
  the same account (so the same address and number) and leaves the store as it is; a
  call that finds the address occupied writes nothing.\<close>

theorem GetModuleAccount_idempotent:
  fixes H c maccPerms
  defines "ak \<equiv> NewAccountKeeper H c maccPerms"
  assumes cfg: "maccPerms moduleName = Some perms"
    and rt: "\<forall>acc bz. MarshalInterface c acc = Inr bz \<longrightarrow> UnmarshalInterface c bz = Inr acc"
    and first: "GetModuleAccount H ak store moduleName = (Returned r1, store1)"
  shows "\<exists>m. r1 = Some m \<and>
              GetModuleAccount H ak store1 moduleName = (Returned (Some m), store1) \<and>
              store1 (AddressStoreKey (H moduleName)) \<noteq> None \<and>
              (store (AddressStoreKey (H moduleName)) \<noteq> None \<longrightarrow> store1 = store)"
proof -
  have lk: "GetModuleAddressAndPermissions ak moduleName = (Some (H moduleName), perms)"
    unfolding ak_def using cfg by (rule lookup_configured)
  have c: "cdc ak = c" by (simp add: ak_def cdc_NewAccountKeeper)
  show ?thesis
  proof (cases "store (AddressStoreKey (H moduleName))")
    case (Some bz)
    show ?thesis
    proof (cases "UnmarshalInterface c bz")
      case (Inl err)
      with Some have "GetAccount ak store (H moduleName) = Panicked (PanicErr err)"
        by (simp add: GetAccount_corrupt c)
      from GetModuleAccount_of(2) [OF existing_corrupt [OF lk this]] first show ?thesis by simp
    next
      case (Inr acc)
      with Some have g: "GetAccount ak store (H moduleName) = Returned (Some acc)"
        by (simp add: GetAccount_decoded c)
      show ?thesis
      proof (cases acc)
        case (BaseAcc b)
        from GetModuleAccount_of(2) [OF existing_base [OF lk g [unfolded BaseAcc]]] first
        show ?thesis by simp
      next
        case (ModuleAcc m)
        have "GetModuleAccount H ak store moduleName = (Returned (Some m), store)"
          by (rule GetModuleAccount_of(1) [OF existing_module [OF lk g [unfolded ModuleAcc]]])
        with first Some show ?thesis by auto
      qed
    qed
  next
    case None
    then have g: "GetAccount ak store (H moduleName) = Returned None"
      by (simp add: GetAccount_absent)
    obtain r store' where nx: "GetNextAccountNumber ak store = (r, store')"
      by (cases "GetNextAccountNumber ak store")
    show ?thesis
    proof (cases r)
      case (Panicked p)
      from GetModuleAccount_of(2) [OF created_panic_number [OF lk g nx [unfolded Panicked]]] first
      show ?thesis by simp
    next
      case (Returned n)
      let ?m = "(NewEmptyModuleAccount H moduleName perms)\<lparr>AccountNumber := n\<rparr>"
      show ?thesis
      proof (cases "MarshalInterface (cdc ak) (ModuleAcc ?m)")
        case (Inl err)
        from GetModuleAccount_of(2) [OF created_panic_marshal [OF lk g nx [unfolded Returned] Inl]] first
        show ?thesis by simp
      next
        case (Inr bz)
        let ?s = "store'(AddressStoreKey (H moduleName) \<mapsto> bz, AccountNumberStoreKey n \<mapsto> H moduleName)"
        have "GetModuleAccount H ak store moduleName = (Returned (Some ?m), ?s)"
          by (rule GetModuleAccount_of(1) [OF created [OF lk g nx [unfolded Returned] Inr]])
        with first have r1: "r1 = Some ?m" and s1: "store1 = ?s" by simp_all
        from Inr rt have "UnmarshalInterface c bz = Inr (ModuleAcc ?m)" by (simp add: c)
        moreover have "?s (AddressStoreKey (H moduleName)) = Some bz" by simp
        ultimately have "GetAccount ak ?s (H moduleName) = Returned (Some (ModuleAcc ?m))"
          by (simp add: GetAccount_decoded c)
        from GetModuleAccount_of(1) [OF existing_module [OF lk this]]
        have "GetModuleAccount H ak ?s moduleName = (Returned (Some ?m), ?s)" .
        with r1 s1 None show ?thesis by simp
      qed
    qed
  qed
qed

theorem GetModuleAccount_idempotent_witness:
  "[''fee_collector'' \<mapsto> [''burner'']] ''fee_collector'' = Some [''burner'']
   \<and> (\<exists>m store1.
        GetModuleAccount (map byte_of_char)
          (NewAccountKeeper (map byte_of_char) envelopeCodec [''fee_collector'' \<mapsto> [''burner'']])
          Map.empty ''fee_collector'' = (Returned (Some m), store1)
        \<and> GetModuleAccount (map byte_of_char)
          (NewAccountKeeper (map byte_of_char) envelopeCodec [''fee_collector'' \<mapsto> [''burner'']])
          store1 ''fee_collector'' = (Returned (Some m), store1)
        \<and> AccountNumber m = 0)"
proof -
  let ?H = "map byte_of_char"
  let ?cfg = "[''fee_collector'' \<mapsto> [''burner'']]"
  let ?ak = "NewAccountKeeper ?H envelopeCodec ?cfg"
  let ?m = "\<lparr>Address = ?H ''fee_collector'', PubKey = None,
                       AccountNumber = 0, Sequence = 0, Name = ''fee_collector'',
                       Permissions = [''burner'']\<rparr>"
  let ?s = "[GlobalAccountNumberKey \<mapsto> putUint64 1,
       AddressStoreKey (?H ''fee_collector'') \<mapsto> encodeEnvelope (ModuleAcc ?m),
       AccountNumberStoreKey 0 \<mapsto> ?H ''fee_collector'']"
  have cfg: "?cfg ''fee_collector'' = Some [''burner'']" by simp
  have first: "GetModuleAccount ?H ?ak Map.empty ''fee_collector'' = (Returned (Some ?m), ?s)"
    by (rule GetModuleAccount_of(1) [OF fee_collector_first_call])
  from GetModuleAccount_idempotent
         [where maccPerms = ?cfg and moduleName = "''fee_collector''" and perms = "[''burner'']"
            and H = ?H and c = envelopeCodec and store = Map.empty,
          OF cfg envelopeCodec_account_roundtrip first]
  have "GetModuleAccount ?H ?ak ?s ''fee_collector'' = (Returned (Some ?m), ?s)" by simp
  with cfg first show ?thesis
    by (intro conjI exI [of _ ?m] exI [of _ ?s]) simp_all
qed

end
